theory Spec2Isabelle
  imports Main "HOL-Library.AList"
begin

section \<open>JavaScript values used by the plugin\<close>

text \<open>
  The plugin (\<^verbatim>\<open>src/index.ts\<close>, version 1.3.14) works on optional strings, on two
  module-level tables and on the closure variables of \<^verbatim>\<open>register\<close>. An optional
  string (\<^verbatim>\<open>string | undefined\<close>) is a \<^typ>\<open>string option\<close>. A string is a list of
  bytes here and a sequence of UTF-16 units in JavaScript; every pattern the plugin
  searches for is ASCII, so prefix and substring tests agree on both readings.
\<close>

definition truthy :: "string option \<Rightarrow> bool" where
  \<comment> \<open>JavaScript truthiness of an optional string: \<^verbatim>\<open>undefined\<close> and \<^verbatim>\<open>''\<close> are falsy.\<close>
  "truthy v = (case v of None \<Rightarrow> False | Some s \<Rightarrow> s \<noteq> [])"

definition or_else :: "string option \<Rightarrow> string option \<Rightarrow> string option" where
  \<comment> \<open>\<^verbatim>\<open>a || b\<close> on optional strings.\<close>
  "or_else a b = (if truthy a then a else b)"

definition nullish :: "'a option \<Rightarrow> 'a \<Rightarrow> 'a" where
  \<comment> \<open>\<^verbatim>\<open>a ?? b\<close>.\<close>
  "nullish a b = (case a of None \<Rightarrow> b | Some x \<Rightarrow> x)"

fun startsWith :: "string \<Rightarrow> string \<Rightarrow> bool" where
  \<comment> \<open>\<^verbatim>\<open>s.startsWith(p)\<close>.\<close>
  "startsWith s [] = True"
| "startsWith [] (p # ps) = False"
| "startsWith (c # cs) (p # ps) = (c = p \<and> startsWith cs ps)"

fun str_includes :: "string \<Rightarrow> string \<Rightarrow> bool" where
  \<comment> \<open>\<^verbatim>\<open>s.includes(sub)\<close>.\<close>
  "str_includes [] sub = (sub = [])"
| "str_includes (c # cs) sub = (startsWith (c # cs) sub \<or> str_includes cs sub)"

section \<open>Module state\<close>

text \<open>
  \<^verbatim>\<open>sessionSenders\<close> is a \<^verbatim>\<open>Map<string, {senderId, timestamp}>\<close> and \<^verbatim>\<open>stoppedSessions\<close> a
  \<^verbatim>\<open>Set<string>\<close>; neither is ever iterated, so a partial function and a set model
  them. Timestamps are \<^verbatim>\<open>Date.now()\<close> readings in milliseconds.
\<close>

record sender_entry =
  entry_senderId :: string
  entry_timestamp :: int

record pending_call =
  pend_postId :: "string option"
  pend_toolName :: string
  pend_startTime :: int

record plugin_state =
  pendingCalls :: "string \<rightharpoonup> pending_call"
  sessionSenders :: "string \<rightharpoonup> sender_entry"
  stoppedSessions :: "string set"
  lastSessionKey :: "string option"

section \<open>Hook \<^verbatim>\<open>message_received\<close>\<close>

text \<open>
  The event as the handler reads it: \<^verbatim>\<open>event.content\<close>, \<^verbatim>\<open>event.metadata?.senderId\<close>,
  \<^verbatim>\<open>event.metadata?.sessionKey\<close>, \<^verbatim>\<open>ctx.accountId\<close> and \<^verbatim>\<open>ctx.conversationId\<close>.
\<close>

record message_event =
  ev_content :: string
  ev_senderId :: "string option"
  ev_sessionKey :: "string option"
  ctx_accountId :: "string option"
  ctx_conversationId :: "string option"

definition link_sender ::
  "string \<Rightarrow> int \<Rightarrow> string option \<Rightarrow> string option \<Rightarrow>
   (string \<rightharpoonup> sender_entry) \<Rightarrow> (string \<rightharpoonup> sender_entry)" where
  \<comment> \<open>The body of \<^verbatim>\<open>if (senderId) { ... }\<close>: the \<^verbatim>\<open>sessionSenders.set\<close> calls in source order.\<close>
  "link_sender sid now sessionKey accountId m =
     (let entry = \<lparr>entry_senderId = sid, entry_timestamp = now\<rparr>;
          m1 = (case sessionKey of
                  None \<Rightarrow> m
                | Some k \<Rightarrow>
                    if k = [] then m
                    else if \<not> startsWith k ''agent:''
                      then (m(k \<mapsto> entry))(''agent:'' @ k \<mapsto> entry)
                      else m(k \<mapsto> entry))
      in (case accountId of
            None \<Rightarrow> m1
          | Some a \<Rightarrow>
              if a = [] then m1
              else (m1(a \<mapsto> entry))(''agent:'' @ a @ '':main'' \<mapsto> entry)))"

definition clear_halt :: "message_event \<Rightarrow> string set \<Rightarrow> string set" where
  \<comment> \<open>"Clear halt state on new user message".\<close>
  "clear_halt ev stopped =
     (case ev_senderId ev of
        None \<Rightarrow> stopped
      | Some sid \<Rightarrow>
          if sid \<noteq> [] \<and> \<not> startsWith (ev_content ev) ''/halt''
               \<and> \<not> startsWith (ev_content ev) ''/unhalt''
          then (if sid \<in> stopped then stopped - {sid} else stopped)
          else stopped)"

definition message_received :: "int \<Rightarrow> message_event \<Rightarrow> plugin_state \<Rightarrow> plugin_state" where
  "message_received now ev st =
     (let sessionKey = or_else (ev_sessionKey ev) (ctx_conversationId ev);
          accountId = ctx_accountId ev;
          st1 = (case ev_senderId ev of
                   None \<Rightarrow> st
                 | Some sid \<Rightarrow>
                     if sid = [] then st
                     else st\<lparr>sessionSenders :=
                            link_sender sid now sessionKey accountId (sessionSenders st)\<rparr>)
      in st1\<lparr>stoppedSessions := clear_halt ev (stoppedSessions st1)\<rparr>)"

section \<open>Sender resolution\<close>

text \<open>
  Step 3 of \<^verbatim>\<open>before_tool_call\<close> ("Resolve sender ID for the session"), repeated in
  \<^verbatim>\<open>postResult\<close> with \<^verbatim>\<open>lastSessionKey\<close> for \<^verbatim>\<open>ctx.sessionKey\<close>. The result is the local
  variable \<^verbatim>\<open>senderId\<close>; \<^verbatim>\<open>accountName\<close> is the name \<^verbatim>\<open>getClient\<close> selected.
\<close>

definition isSubagent :: "string option \<Rightarrow> bool" where
  "isSubagent sessionKey =
     (case sessionKey of
        None \<Rightarrow> False
      | Some k \<Rightarrow> str_includes k '':subagent:'' \<or> str_includes k '':cron:'')"

definition resolveSender ::
  "(string \<rightharpoonup> sender_entry) \<Rightarrow> string option \<Rightarrow> string \<Rightarrow> int \<Rightarrow> string option" where
  "resolveSender senders sessionKey accountName now =
     (case senders (nullish sessionKey []) of
        Some sessionEntry \<Rightarrow> Some (entry_senderId sessionEntry)
      | None \<Rightarrow>
          (case senders accountName of
             None \<Rightarrow> None
           | Some accountEntry \<Rightarrow>
               (let isFresh = (now - entry_timestamp accountEntry < 30 * 60 * 1000)
                in if isFresh \<and> \<not> isSubagent sessionKey
                   then Some (entry_senderId accountEntry) else None)))"

section \<open>Account registry and client selection\<close>

text \<open>
  \<^verbatim>\<open>botAccounts\<close> is a \<^verbatim>\<open>Map<string, {token, url?}>\<close> whose insertion order is read by
  \<^verbatim>\<open>[...botAccounts.values()][0]\<close>, so it is an association list: \<^const>\<open>AList.update\<close>
  replaces the value of a present key in place and appends an absent key, as
  \<^verbatim>\<open>Map.prototype.set\<close> does.
\<close>

record account =
  acct_token :: string
  acct_url :: "string option"

record mattermost_account =
  ma_botToken :: "string option"
  ma_baseUrl :: "string option"
  ma_name :: "string option"

record plugin_config =
  pc_webhookUrl :: "string option"
  pc_baseUrl :: "string option"
  pc_botToken :: "string option"
  pc_channel :: "string option"
  pc_username :: "string option"
  pc_iconUrl :: "string option"
  pc_iconEmoji :: "string option"
  pc_includeResults :: "bool option"
  pc_excludeTools :: "string list option"
  pc_postToConversation :: "bool option"
  pc_enableHaltCommands :: "bool option"

text \<open>
  What \<^verbatim>\<open>register\<close> reads from \<^verbatim>\<open>api\<close> and the process environment:
  \<^verbatim>\<open>channels.mattermost.url\<close>, \<^verbatim>\<open>Object.entries(channels.mattermost.accounts)\<close>, the
  plugin's own configuration entry, three environment variables, and whether
  \<^verbatim>\<open>api.registerCommand\<close> exists.
\<close>

record host_config =
  mm_url :: "string option"
  mm_accounts :: "(string \<times> mattermost_account option) list option"
  plugin_entry_config :: "plugin_config option"
  env_MATTERMOST_URL :: "string option"
  env_MATTERMOST_BOT_TOKEN :: "string option"
  env_MATTERMOST_WEBHOOK_URL :: "string option"
  api_registerCommand :: bool

definition empty_config :: plugin_config where
  \<comment> \<open>\<^verbatim>\<open>{} as PluginConfig\<close>.\<close>
  "empty_config =
     \<lparr>pc_webhookUrl = None, pc_baseUrl = None, pc_botToken = None, pc_channel = None,
      pc_username = None, pc_iconUrl = None, pc_iconEmoji = None, pc_includeResults = None,
      pc_excludeTools = None, pc_postToConversation = None, pc_enableHaltCommands = None\<rparr>"

fun add_accounts ::
  "string option \<Rightarrow> (string \<times> mattermost_account option) list \<Rightarrow>
   (string \<times> account) list \<Rightarrow> (string \<times> account) list" where
  \<comment> \<open>The loop \<^verbatim>\<open>for (const [accountName, account] of Object.entries(...))\<close>.\<close>
  "add_accounts defaultBaseUrl [] botAccounts = botAccounts"
| "add_accounts defaultBaseUrl ((accountName, account) # rest) botAccounts =
     add_accounts defaultBaseUrl rest
       (case account of
          None \<Rightarrow> botAccounts
        | Some a \<Rightarrow>
            (case ma_botToken a of
               None \<Rightarrow> botAccounts
             | Some tok \<Rightarrow>
                 if tok = [] then botAccounts
                 else
                   (let acct = \<lparr>acct_token = tok,
                                 acct_url = or_else (ma_baseUrl a) defaultBaseUrl\<rparr>;
                        m1 = AList.update accountName acct botAccounts
                    in (case ma_name a of
                          None \<Rightarrow> m1
                        | Some n \<Rightarrow> if n = [] then m1 else AList.update n acct m1))))"

text \<open>The closure variables the hooks of a registered plugin read.\<close>

record plugin_env =
  botAccounts :: "(string \<times> account) list"
  defaultBaseUrl :: "string option"
  webhookUrl :: "string option"
  pluginConfig :: plugin_config
  excludedTools :: "string list"
  includeResults :: bool
  postToConversation :: bool
  enableHaltCommands :: bool
  commandsRegistered :: bool

definition register :: "host_config \<Rightarrow> plugin_env option" where
  \<comment> \<open>\<^const>\<open>None\<close> is the early \<^verbatim>\<open>return\<close> of "No Mattermost connection configured": no
      hook and no command is installed.\<close>
  "register cfg =
     (let pc = nullish (plugin_entry_config cfg) empty_config;
          dflt = or_else (or_else (mm_url cfg) (pc_baseUrl pc)) (env_MATTERMOST_URL cfg);
          accts0 = (case mm_accounts cfg of
                      None \<Rightarrow> []
                    | Some entries \<Rightarrow> add_accounts dflt entries []);
          envToken = or_else (pc_botToken pc) (env_MATTERMOST_BOT_TOKEN cfg);
          accts = (case envToken of
                     None \<Rightarrow> accts0
                   | Some tok \<Rightarrow>
                       if tok = [] then accts0
                       else AList.update ''default''
                              \<lparr>acct_token = tok, acct_url = dflt\<rparr> accts0);
          hook = or_else (pc_webhookUrl pc) (env_MATTERMOST_WEBHOOK_URL cfg)
      in if accts = [] \<and> \<not> truthy hook then None
         else Some
           \<lparr>botAccounts = accts, defaultBaseUrl = dflt, webhookUrl = hook, pluginConfig = pc,
            excludedTools = nullish (pc_excludeTools pc) [''message''],
            includeResults = nullish (pc_includeResults pc) True,
            postToConversation = nullish (pc_postToConversation pc) True,
            enableHaltCommands = nullish (pc_enableHaltCommands pc) False,
            commandsRegistered =
              (nullish (pc_enableHaltCommands pc) False \<and> api_registerCommand cfg)\<rparr>)"

definition capture_agent :: "string \<Rightarrow> string \<Rightarrow> string option" where
  \<comment> \<open>\<^verbatim>\<open>s.match(/^PREFIX([^:]+)/)?.[1]\<close> for a literal \<^verbatim>\<open>PREFIX\<close>: the longest run of
      characters other than a colon after the prefix, when that run is not empty.\<close>
  "capture_agent pre s =
     (if startsWith s pre
      then (let g = takeWhile (\<lambda>c. c \<noteq> CHR '':'') (drop (length pre) s)
            in if g = [] then None else Some g)
      else None)"

definition extractAgentFromSessionKey :: "string option \<Rightarrow> string option" where
  "extractAgentFromSessionKey sessionKey =
     (case sessionKey of
        None \<Rightarrow> None
      | Some k \<Rightarrow>
          if k = [] then None
          else (case capture_agent ''agent:'' k of
                  Some a \<Rightarrow> Some a
                | None \<Rightarrow> capture_agent ''session:agent:'' k))"

definition first_value :: "(string \<times> account) list \<Rightarrow> account option" where
  \<comment> \<open>\<^verbatim>\<open>[...botAccounts.values()][0]\<close>.\<close>
  "first_value m = (case m of [] \<Rightarrow> None | (k, v) # rest \<Rightarrow> Some v)"

definition selectAccount ::
  "(string \<times> account) list \<Rightarrow> string option \<Rightarrow> account option \<times> string" where
  \<comment> \<open>The account selection of \<^verbatim>\<open>getClient\<close>: the variables \<^verbatim>\<open>account\<close> and
      \<^verbatim>\<open>selectedAccountName\<close> before the client is built.\<close>
  "selectAccount accts agentId =
     (let account = (if truthy agentId then map_of accts (nullish agentId []) else None);
          selectedAccountName = (if truthy agentId then nullish agentId [] else ''unknown'')
      in (case account of
            Some a \<Rightarrow> (Some a, selectedAccountName)
          | None \<Rightarrow>
              (let account' = (case map_of accts ''default'' of
                                 Some d \<Rightarrow> Some d
                               | None \<Rightarrow> first_value accts)
               in (account', if account' \<noteq> None then ''default'' else ''none''))))"

record client =
  cl_webhookUrl :: "string option"
  cl_baseUrl :: "string option"
  cl_botToken :: "string option"
  cl_channel :: "string option"
  cl_username :: "string option"
  cl_iconEmoji :: "string option"
  cl_iconUrl :: "string option"

definition getClient :: "plugin_env \<Rightarrow> string option \<Rightarrow> client option \<times> string" where
  "getClient env sessionKey =
     (let agentId = extractAgentFromSessionKey sessionKey;
          (account, selectedAccountName) = selectAccount (botAccounts env) agentId;
          tok = (case account of None \<Rightarrow> None | Some a \<Rightarrow> Some (acct_token a));
          aurl = (case account of None \<Rightarrow> None | Some a \<Rightarrow> acct_url a)
      in if \<not> truthy tok \<and> \<not> truthy (webhookUrl env) then (None, selectedAccountName)
         else (Some
                 \<lparr>cl_webhookUrl = webhookUrl env,
                  cl_baseUrl = or_else aurl (defaultBaseUrl env),
                  cl_botToken = tok,
                  cl_channel = pc_channel (pluginConfig env),
                  cl_username = Some (nullish (pc_username (pluginConfig env)) ''OpenClaw Agent''),
                  cl_iconEmoji = Some (nullish (pc_iconEmoji (pluginConfig env)) '':robot:''),
                  cl_iconUrl = pc_iconUrl (pluginConfig env)\<rparr>,
               selectedAccountName))"

section \<open>The chat client\<close>

text \<open>
  \<^verbatim>\<open>MattermostClient\<close> posts over HTTP. The server's answers are not the plugin's to
  decide, so they are a parameter: a \<open>network\<close> maps the client calls made so far in a
  handler run and the present call to either the error thrown or the post id returned.
  Every handler returns the list of client calls it made, in order. A client is built
  anew by every \<^verbatim>\<open>getClient\<close>, so its DM channel cache is empty when \<^verbatim>\<open>postToDm\<close> runs.
\<close>

datatype post_error = RestApiNotConfigured | WebhookNotConfigured | RequestFailed string

datatype post_call = PostToDm string string | PostToWebhook string

type_synonym network = "post_call list \<Rightarrow> post_call \<Rightarrow> post_error + string option"

definition hasRestApi :: "client \<Rightarrow> bool" where
  "hasRestApi c = (truthy (cl_baseUrl c) \<and> truthy (cl_botToken c))"

definition postToDm ::
  "network \<Rightarrow> client \<Rightarrow> string \<Rightarrow> string \<Rightarrow> post_call list \<Rightarrow>
   (post_error + string option) \<times> post_call list" where
  "postToDm net c userId text log =
     (let call = PostToDm userId text
      in (if \<not> truthy (cl_baseUrl c) \<or> \<not> truthy (cl_botToken c)
          then Inl RestApiNotConfigured
          else net log call,
          log @ [call]))"

definition postToWebhook ::
  "network \<Rightarrow> client \<Rightarrow> string \<Rightarrow> post_call list \<Rightarrow>
   (post_error + string option) \<times> post_call list" where
  \<comment> \<open>A webhook answers "ok", never a post id: success returns \<^verbatim>\<open>undefined\<close>.\<close>
  "postToWebhook net c text log =
     (let call = PostToWebhook text
      in (if \<not> truthy (cl_webhookUrl c)
          then Inl WebhookNotConfigured
          else (case net log call of Inl e \<Rightarrow> Inl e | Inr r \<Rightarrow> Inr None),
          log @ [call]))"

definition try_catch ::
  "('e + 'a) \<times> 'w \<Rightarrow> ('e \<Rightarrow> 'w \<Rightarrow> ('e + 'a) \<times> 'w) \<Rightarrow> ('e + 'a) \<times> 'w" where
  \<comment> \<open>\<^verbatim>\<open>try { body } catch (e) { handler }\<close>, the body already run to its outcome.\<close>
  "try_catch body handler =
     (case body of (Inl e, w) \<Rightarrow> handler e w | (Inr v, w) \<Rightarrow> (Inr v, w))"

section \<open>Commands \<^verbatim>\<open>/halt\<close> and \<^verbatim>\<open>/unhalt\<close>\<close>

definition haltedText :: string where
  "haltedText =
     [CHR 0xC3, CHR 0xB0, CHR 0xC5, CHR 0xB8, CHR 0xE2, CHR 0x80, CHR 0xBA, CHR 0xE2,
      CHR 0x80, CHR 0x98]
     @ '' Agent halted. Tool calls will be blocked until you send a new message.''"

definition resumedText :: string where
  "resumedText =
     [CHR 0xC3, CHR 0xA2, CHR 0xE2, CHR 0x80, CHR 0x93, CHR 0xC2, CHR 0xB6, CHR 0xC3,
      CHR 0xAF, CHR 0xC2, CHR 0xB8]
     @ '' Agent resumed. Tool calls are now enabled.''"

definition notHaltedText :: string where
  "notHaltedText = ''Agent is not currently halted.''"

definition halt_command ::
  "plugin_env \<Rightarrow> network \<Rightarrow> string option \<Rightarrow> plugin_state \<Rightarrow>
   (post_error + string) \<times> post_call list \<times> plugin_state" where
  \<comment> \<open>The handler of command \<^verbatim>\<open>halt\<close>, given \<^verbatim>\<open>ctx.senderId\<close>; the result is the reply's
      \<^verbatim>\<open>text\<close>. The DM post is awaited outside any \<^verbatim>\<open>try\<close>.\<close>
  "halt_command env net senderId st =
     (let sessionKey = nullish senderId ''default'';
          st1 = st\<lparr>stoppedSessions := insert sessionKey (stoppedSessions st)\<rparr>
      in (case fst (getClient env None) of
            None \<Rightarrow> (Inr haltedText, [], st1)
          | Some c \<Rightarrow>
              if hasRestApi c \<and> truthy senderId
              then (case postToDm net c (nullish senderId []) haltedText [] of
                      (Inl e, log) \<Rightarrow> (Inl e, log, st1)
                    | (Inr r, log) \<Rightarrow> (Inr haltedText, log, st1))
              else (Inr haltedText, [], st1)))"

definition unhalt_command ::
  "string option \<Rightarrow> plugin_state \<Rightarrow> (post_error + string) \<times> post_call list \<times> plugin_state" where
  "unhalt_command senderId st =
     (let sessionKey = nullish senderId ''default''
      in if sessionKey \<in> stoppedSessions st
         then (Inr resumedText, [],
               st\<lparr>stoppedSessions := stoppedSessions st - {sessionKey}\<rparr>)
         else (Inr notHaltedText, [], st))"

section \<open>Hook \<^verbatim>\<open>before_tool_call\<close>\<close>

text \<open>
  The handler takes the event's \<^verbatim>\<open>toolName\<close>, the context's \<^verbatim>\<open>sessionKey\<close>, the string
  \<^verbatim>\<open>formatToolCall\<close> returned (\<open>message\<close>) and the clock's reading. It returns what the
  host sees (an exception, \<^verbatim>\<open>undefined\<close> as \<^const>\<open>None\<close>, or a block directive), the
  client calls made, and the state it leaves. After the \<^verbatim>\<open>try\<close> statement the handler
  returns \<^verbatim>\<open>undefined\<close>; an exception the statement let through would pass unchanged.
\<close>

record block_directive =
  block :: bool
  blockReason :: string

fun digits :: "nat \<Rightarrow> string" where
  "digits n =
     (if n < 10 then [char_of (48 + n)]
      else digits (n div 10) @ [char_of (48 + n mod 10)])"

declare digits.simps [simp del]

definition number_string :: "int \<Rightarrow> string" where
  \<comment> \<open>An integer in a template literal.\<close>
  "number_string i = (if i < 0 then CHR ''-'' # digits (nat (- i)) else digits (nat i))"

definition post_call_attempt ::
  "plugin_env \<Rightarrow> network \<Rightarrow> client \<Rightarrow> string option \<Rightarrow> string \<Rightarrow>
   (string option \<Rightarrow> plugin_state \<Rightarrow> plugin_state) \<Rightarrow> post_call list \<times> plugin_state \<Rightarrow>
   (post_error + unit) \<times> post_call list \<times> plugin_state" where
  \<comment> \<open>The body of the \<^verbatim>\<open>try\<close>: DM when a sender is resolved, webhook otherwise, then
      the bookkeeping \<open>after\<close> that follows a post that returned.\<close>
  "post_call_attempt env net c senderId message after w =
     (case w of (log, st) \<Rightarrow>
        (case (if postToConversation env \<and> hasRestApi c \<and> truthy senderId
               then postToDm net c (nullish senderId []) message log
               else postToWebhook net c message log) of
           (Inl e, log1) \<Rightarrow> (Inl e, log1, st)
         | (Inr postId, log1) \<Rightarrow> (Inr (), log1, after postId st)))"

definition webhook_fallback ::
  "network \<Rightarrow> client option \<Rightarrow> string \<Rightarrow> post_call list \<times> plugin_state \<Rightarrow>
   (post_error + unit) \<times> post_call list \<times> plugin_state" where
  \<comment> \<open>The \<^verbatim>\<open>catch\<close> block: one webhook post inside its own \<^verbatim>\<open>try\<close>, whose \<^verbatim>\<open>catch\<close>
      only logs.\<close>
  "webhook_fallback net fallbackClient message w =
     try_catch
       (case w of (log, st) \<Rightarrow>
          (case fallbackClient of
             None \<Rightarrow> (Inr (), log, st)
           | Some c \<Rightarrow>
               (case postToWebhook net c message log of
                  (Inl e, log1) \<Rightarrow> (Inl e, log1, st)
                | (Inr r, log1) \<Rightarrow> (Inr (), log1, st))))
       (\<lambda>webhookError w'. (Inr (), w'))"

definition blockReasonText :: string where
  "blockReasonText = ''Agent interaction halted via /halt command.''"

definition before_tool_call ::
  "plugin_env \<Rightarrow> network \<Rightarrow> int \<Rightarrow> string \<Rightarrow> string \<Rightarrow> string option \<Rightarrow> plugin_state \<Rightarrow>
   (post_error + block_directive option) \<times> post_call list \<times> plugin_state" where
  "before_tool_call env net now toolName message sessionKey st =
     (let st1 = st\<lparr>lastSessionKey := sessionKey\<rparr>
      in if toolName \<in> set (excludedTools env) then (Inr None, [], st1)
         else
           (case getClient env sessionKey of
              (None, accountName) \<Rightarrow> (Inr None, [], st1)
            | (Some c, accountName) \<Rightarrow>
                (let senderId = resolveSender (sessionSenders st1) sessionKey accountName now
                 in if enableHaltCommands env \<and> truthy senderId
                         \<and> nullish senderId [] \<in> stoppedSessions st1
                    then (Inr (Some \<lparr>block = True, blockReason = blockReasonText\<rparr>), [], st1)
                    else
                      (let toolCallId = nullish sessionKey ''default'' @ ''-'' @ toolName
                                          @ ''-'' @ number_string now;
                           remember = (\<lambda>postId s. s\<lparr>pendingCalls := (pendingCalls s)
                                         (toolCallId \<mapsto> \<lparr>pend_postId = postId,
                                            pend_toolName = toolName, pend_startTime = now\<rparr>)\<rparr>)
                       in apfst (map_sum id (\<lambda>u. None))
                            (try_catch
                               (post_call_attempt env net c senderId message remember
                                  ([], st1))
                               (\<lambda>error. webhook_fallback net (Some c) message))))))"

section \<open>Hook \<^verbatim>\<open>tool_result_persist\<close>\<close>

text \<open>
  The hook is synchronous: it starts \<^verbatim>\<open>postResult\<close>, attaches \<^verbatim>\<open>.catch(console.error)\<close>
  and returns \<^verbatim>\<open>undefined\<close>. \<open>formattedMessage\<close> is the string \<^verbatim>\<open>formatToolResult\<close>
  returned. \<^verbatim>\<open>postResult\<close> reads \<^verbatim>\<open>lastSessionKey\<close> when it starts and again in its
  \<^verbatim>\<open>catch\<close> block; the model reads the same state both times.
\<close>

definition postResult ::
  "plugin_env \<Rightarrow> network \<Rightarrow> int \<Rightarrow> string \<Rightarrow> plugin_state \<Rightarrow>
   (post_error + unit) \<times> post_call list \<times> plugin_state" where
  "postResult env net now formattedMessage st =
     try_catch
       (case getClient env (lastSessionKey st) of
          (None, accountName) \<Rightarrow> (Inr (), [], st)
        | (Some c, accountName) \<Rightarrow>
            (let senderId =
                   resolveSender (sessionSenders st) (lastSessionKey st) accountName now
             in post_call_attempt env net c senderId formattedMessage (\<lambda>postId s. s)
                  ([], st)))
       (\<lambda>err. webhook_fallback net (fst (getClient env (lastSessionKey st))) formattedMessage)"

definition tool_result_persist ::
  "plugin_env \<Rightarrow> network \<Rightarrow> int \<Rightarrow> string \<Rightarrow> string \<Rightarrow> plugin_state \<Rightarrow>
   (post_error + unit) \<times> post_call list \<times> plugin_state" where
  "tool_result_persist env net now toolName formattedMessage st =
     (if \<not> includeResults env \<or> toolName \<in> set (excludedTools env) then (Inr (), [], st)
      else
        apfst (\<lambda>settled. Inr ())
          (try_catch (postResult env net now formattedMessage st)
             (\<lambda>rejected w. (Inr (), w))))"

section \<open>Runs of the plugin\<close>

text \<open>
  The host calls the hooks and commands one at a time; each call runs to its first
  \<^verbatim>\<open>await\<close> before another starts, and every read of the tables precedes that
  \<^verbatim>\<open>await\<close>. A run is the list of calls, each with the data the host and the server
  supply; the commands exist only when they were registered.
\<close>

datatype plugin_event =
    MessageReceived int message_event
  | BeforeToolCall network int string string "string option"
  | ToolResultPersist network int string string
  | HaltCommand network "string option"
  | UnhaltCommand "string option"

fun step :: "plugin_env \<Rightarrow> plugin_event \<Rightarrow> plugin_state \<Rightarrow> plugin_state" where
  "step env (MessageReceived now ev) st = message_received now ev st"
| "step env (BeforeToolCall net now toolName message sessionKey) st =
     snd (snd (before_tool_call env net now toolName message sessionKey st))"
| "step env (ToolResultPersist net now toolName formattedMessage) st =
     snd (snd (tool_result_persist env net now toolName formattedMessage st))"
| "step env (HaltCommand net senderId) st =
     (if commandsRegistered env then snd (snd (halt_command env net senderId st)) else st)"
| "step env (UnhaltCommand senderId) st =
     (if commandsRegistered env then snd (snd (unhalt_command senderId st)) else st)"

fun run :: "plugin_env \<Rightarrow> plugin_event list \<Rightarrow> plugin_state \<Rightarrow> plugin_state" where
  "run env [] st = st"
| "run env (e # es) st = run env es (step env e st)"

definition link_keys :: "string option \<Rightarrow> string option \<Rightarrow> string set" where
  \<comment> \<open>The keys \<^const>\<open>link_sender\<close> passes to \<^verbatim>\<open>sessionSenders.set\<close>.\<close>
  "link_keys sessionKey accountId =
     (case sessionKey of
        None \<Rightarrow> {}
      | Some k \<Rightarrow>
          if k = [] then {}
          else if startsWith k ''agent:'' then {k} else {k, ''agent:'' @ k})
     \<union> (case accountId of
          None \<Rightarrow> {}
        | Some a \<Rightarrow> if a = [] then {} else {a, ''agent:'' @ a @ '':main''})"

fun records_under :: "string \<Rightarrow> plugin_event \<Rightarrow> bool" where
  \<comment> \<open>The event stores a sender link under key \<open>k\<close>.\<close>
  "records_under k (MessageReceived now ev) =
     (truthy (ev_senderId ev)
      \<and> k \<in> link_keys (or_else (ev_sessionKey ev) (ctx_conversationId ev)) (ctx_accountId ev))"
| "records_under k e = False"

definition senders_nonempty :: "(string \<rightharpoonup> sender_entry) \<Rightarrow> bool" where
  \<comment> \<open>Every stored link names a recipient.\<close>
  "senders_nonempty m = (\<forall>k e. m k = Some e \<longrightarrow> entry_senderId e \<noteq> [])"

section \<open>A concrete deployment\<close>

text \<open>
  The module's state when the plugin is loaded, and the scenario the properties below
  are run on: a registry built from the accounts \<^verbatim>\<open>{default: tokenA, ops: tokenB}\<close>
  with halt commands enabled, a user \<^verbatim>\<open>u1\<close> writing to the \<^verbatim>\<open>ops\<close> bot in conversation
  \<^verbatim>\<open>conv1\<close>, and a chat server that either answers or fails every request.
\<close>

definition initial_state :: plugin_state where
  "initial_state =
     \<lparr>pendingCalls = Map.empty, sessionSenders = Map.empty, stoppedSessions = {},
      lastSessionKey = None\<rparr>"

definition example_config :: host_config where
  "example_config =
     \<lparr>mm_url = Some ''https://chat.example.org'',
      mm_accounts = Some
        [(''default'',
          Some \<lparr>ma_botToken = Some ''tokenA'', ma_baseUrl = None, ma_name = None\<rparr>),
         (''ops'',
          Some \<lparr>ma_botToken = Some ''tokenB'', ma_baseUrl = None, ma_name = None\<rparr>)],
      plugin_entry_config = Some (empty_config\<lparr>pc_enableHaltCommands := Some True\<rparr>),
      env_MATTERMOST_URL = None, env_MATTERMOST_BOT_TOKEN = None,
      env_MATTERMOST_WEBHOOK_URL = None, api_registerCommand = True\<rparr>"

definition example_env :: plugin_env where
  "example_env =
     \<lparr>botAccounts =
        [(''default'',
          \<lparr>acct_token = ''tokenA'', acct_url = Some ''https://chat.example.org''\<rparr>),
         (''ops'',
          \<lparr>acct_token = ''tokenB'', acct_url = Some ''https://chat.example.org''\<rparr>)],
      defaultBaseUrl = Some ''https://chat.example.org'',
      webhookUrl = None,
      pluginConfig = empty_config\<lparr>pc_enableHaltCommands := Some True\<rparr>,
      excludedTools = [''message''], includeResults = True, postToConversation = True,
      enableHaltCommands = True, commandsRegistered = True\<rparr>"

definition ops_client :: client where
  "ops_client =
     \<lparr>cl_webhookUrl = None, cl_baseUrl = Some ''https://chat.example.org'',
      cl_botToken = Some ''tokenB'', cl_channel = None,
      cl_username = Some ''OpenClaw Agent'', cl_iconEmoji = Some '':robot:'',
      cl_iconUrl = None\<rparr>"

definition example_message :: "string \<Rightarrow> message_event" where
  "example_message content =
     \<lparr>ev_content = content, ev_senderId = Some ''u1'', ev_sessionKey = Some ''conv1'',
      ctx_accountId = Some ''ops'', ctx_conversationId = Some ''conv1''\<rparr>"

definition other_message :: message_event where
  "other_message =
     \<lparr>ev_content = ''status?'', ev_senderId = Some ''u2'', ev_sessionKey = Some ''conv2'',
      ctx_accountId = Some ''default'', ctx_conversationId = Some ''conv2''\<rparr>"

definition server_up :: network where
  "server_up log call = Inr (Some ''post1'')"

definition server_down :: network where
  "server_down log call = Inl (RequestFailed ''503'')"

definition linked_state :: plugin_state where
  "linked_state = message_received 1000 (example_message ''hello'') initial_state"

definition halted_state :: plugin_state where
  "halted_state = snd (snd (halt_command example_env server_up (Some ''u1'') linked_state))"

section \<open>Basic facts\<close>

lemma truthy_Some [simp]: "truthy (Some s) = (s \<noteq> [])"
  by (simp add: truthy_def)

lemma truthy_None [simp]: "truthy None = False"
  by (simp add: truthy_def)

lemma try_catch_Inr [simp]: "try_catch (Inr v, w) h = (Inr v, w)"
  by (simp add: try_catch_def)

lemma try_catch_Inl [simp]: "try_catch (Inl e, w) h = h e w"
  by (simp add: try_catch_def)

lemma try_catch_world:
  assumes "P (snd body)" and "\<And>e w. P w \<Longrightarrow> P (snd (handler e w))"
  shows "P (snd (try_catch body handler))"
proof (cases body)
  case (Pair r w)
  with assms show ?thesis by (cases r) auto
qed

lemma try_catch_returns:
  assumes "\<And>e w. \<not> isl (fst (handler e w))"
  shows "\<not> isl (fst (try_catch body handler))"
proof (cases body)
  case (Pair r w)
  with assms show ?thesis by (cases r) auto
qed

lemma extractAgent_nonempty: "extractAgentFromSessionKey sk \<noteq> Some []"
  by (auto simp add: extractAgentFromSessionKey_def capture_agent_def Let_def
      split: option.splits if_splits)

lemma first_value_update:
  "m \<noteq> [] \<Longrightarrow> fst (hd (AList.update k v m)) = fst (hd m)"
  by (cases m) auto

section \<open>Recording a sender\<close>

lemma link_sender_apply:
  "link_sender R t sessionKey accountId m k =
     (if k \<in> link_keys sessionKey accountId
      then Some \<lparr>entry_senderId = R, entry_timestamp = t\<rparr> else m k)"
  by (simp add: link_sender_def link_keys_def Let_def split: option.split)

lemma link_sender_session:
  assumes "S \<noteq> []"
  shows "link_sender R t (Some S) A m S = Some \<lparr>entry_senderId = R, entry_timestamp = t\<rparr>"
  using assms by (simp add: link_sender_def Let_def split: option.split)

lemma link_sender_normalized:
  assumes "S \<noteq> []"
  shows "link_sender R t (Some S) A m (if startsWith S ''agent:'' then S else ''agent:'' @ S)
           = Some \<lparr>entry_senderId = R, entry_timestamp = t\<rparr>"
  using assms by (simp add: link_sender_def Let_def split: option.split)

lemma link_sender_account:
  assumes "A \<noteq> []"
  shows "link_sender R t sk (Some A) m A = Some \<lparr>entry_senderId = R, entry_timestamp = t\<rparr>"
  using assms by (simp add: link_sender_def Let_def)

lemma link_sender_agent_main:
  assumes "A \<noteq> []"
  shows "link_sender R t sk (Some A) m (''agent:'' @ A @ '':main'')
           = Some \<lparr>entry_senderId = R, entry_timestamp = t\<rparr>"
  using assms by (simp add: link_sender_def Let_def)

lemma sessionSenders_message_received:
  assumes "ev_senderId ev = Some R" and "R \<noteq> []"
  shows "sessionSenders (message_received t ev st) =
           link_sender R t (or_else (ev_sessionKey ev) (ctx_conversationId ev))
             (ctx_accountId ev) (sessionSenders st)"
  using assms by (simp add: message_received_def)

lemma message_received_other_key:
  assumes "k \<notin> link_keys (or_else (ev_sessionKey ev) (ctx_conversationId ev)) (ctx_accountId ev)"
  shows "sessionSenders (message_received t ev st) k = sessionSenders st k"
  using assms
  by (simp add: message_received_def link_sender_apply Let_def split: option.split)

lemma stopped_after_halt:
  "stoppedSessions (snd (snd (halt_command env net senderId st)))
     = insert (nullish senderId ''default'') (stoppedSessions st)"
  by (simp add: halt_command_def Let_def split: option.split prod.split sum.split)

lemma stopped_after_message:
  "stoppedSessions (message_received now ev st) = clear_halt ev (stoppedSessions st)"
  by (simp add: message_received_def Let_def split: option.split)

lemma halt_command_senders:
  "sessionSenders (snd (snd (halt_command env net senderId st))) = sessionSenders st"
  by (simp add: halt_command_def Let_def split: option.split prod.split sum.split)

lemma unhalt_command_senders:
  "sessionSenders (snd (snd (unhalt_command senderId st))) = sessionSenders st"
  by (simp add: unhalt_command_def Let_def)

section \<open>Posting\<close>

lemma post_call_attempt_senders:
  assumes "\<And>p s. sessionSenders (after p s) = sessionSenders s"
  shows "sessionSenders (snd (snd (post_call_attempt env net c sid msg after (log, st))))
           = sessionSenders st"
  using assms by (simp add: post_call_attempt_def split: prod.split sum.split)

lemma post_call_attempt_log:
  "fst (snd (post_call_attempt env net c sid msg after (log, st))) =
     log @ [if postToConversation env \<and> hasRestApi c \<and> truthy sid
            then PostToDm (nullish sid []) msg else PostToWebhook msg]"
  by (simp add: post_call_attempt_def postToDm_def postToWebhook_def Let_def
      split: prod.split sum.split)

lemma webhook_fallback_state:
  "snd (snd (webhook_fallback net fc msg (log, st))) = st"
  by (simp add: webhook_fallback_def split: option.split prod.split sum.split)

lemma webhook_fallback_returns:
  "fst (webhook_fallback net fc msg w) = Inr ()"
  by (cases w) (simp add: webhook_fallback_def split: option.split prod.split sum.split)

lemma webhook_fallback_log:
  "fst (snd (webhook_fallback net (Some c) msg (log, st))) = log @ [PostToWebhook msg]"
  by (simp add: webhook_fallback_def postToWebhook_def Let_def split: prod.split sum.split)

lemma notify_senders:
  assumes "\<And>p s. sessionSenders (after p s) = sessionSenders s"
  shows "sessionSenders (snd (snd
           (try_catch (post_call_attempt env net c sid msg after ([], st1))
              (\<lambda>error. webhook_fallback net fc msg)))) = sessionSenders st1"
proof (rule try_catch_world [where P = "\<lambda>w. sessionSenders (snd w) = sessionSenders st1"])
  show "sessionSenders (snd (snd (post_call_attempt env net c sid msg after ([], st1))))
          = sessionSenders st1"
    using assms by (rule post_call_attempt_senders)
next
  fix e :: post_error and w :: "post_call list \<times> plugin_state"
  assume "sessionSenders (snd w) = sessionSenders st1"
  then show "sessionSenders (snd (snd (webhook_fallback net fc msg w))) = sessionSenders st1"
    by (cases w) (simp add: webhook_fallback_state)
qed

lemma before_tool_call_senders:
  "sessionSenders (snd (snd (before_tool_call env net now toolName message sessionKey st)))
     = sessionSenders st"
  by (simp add: before_tool_call_def Let_def notify_senders split: prod.split option.split)

lemma tool_result_persist_senders:
  "sessionSenders (snd (snd (tool_result_persist env net now toolName msg st)))
     = sessionSenders st"
proof -
  have "sessionSenders (snd (snd (postResult env net now msg st))) = sessionSenders st"
    by (simp add: postResult_def notify_senders split: prod.split option.split)
  then have "sessionSenders (snd (snd (try_catch (postResult env net now msg st)
               (\<lambda>rejected w. (Inr (), w))))) = sessionSenders st"
    by (intro try_catch_world [where P = "\<lambda>w. sessionSenders (snd w) = sessionSenders st"])
       simp_all
  then show ?thesis
    by (simp add: tool_result_persist_def)
qed

lemma notify_returns:
  "\<not> isl (fst (try_catch body (\<lambda>error. webhook_fallback net fc msg)))"
  by (rule try_catch_returns) (simp add: webhook_fallback_returns)

lemma before_tool_call_returns:
  "\<not> isl (fst (before_tool_call env net now toolName message sessionKey st))"
  by (simp add: before_tool_call_def Let_def notify_returns isl_map_sum
      split: prod.split option.split)

lemma postResult_returns:
  "\<not> isl (fst (postResult env net now msg st))"
  unfolding postResult_def by (rule notify_returns)

lemma tool_result_persist_returns:
  "\<not> isl (fst (tool_result_persist env net now toolName msg st))"
  by (simp add: tool_result_persist_def)

lemma dm_failure_then_one_webhook:
  assumes "postToConversation env" and "hasRestApi c" and "U \<noteq> []"
    and "isl (net [] (PostToDm U msg))"
  shows "try_catch (post_call_attempt env net c (Some U) msg after ([], st1))
           (\<lambda>error. webhook_fallback net (Some c) msg)
         = (Inr (), [PostToDm U msg, PostToWebhook msg], st1)"
proof -
  obtain e where e: "net [] (PostToDm U msg) = Inl e"
    using assms(4) by (cases "net [] (PostToDm U msg)") auto
  have first: "post_call_attempt env net c (Some U) msg after ([], st1)
                 = (Inl e, [PostToDm U msg], st1)"
    using assms(1-3) e
    by (simp add: post_call_attempt_def postToDm_def hasRestApi_def nullish_def)
  have second: "webhook_fallback net (Some c) msg ([PostToDm U msg], st1)
                  = (Inr (), [PostToDm U msg, PostToWebhook msg], st1)"
    by (simp add: webhook_fallback_def postToWebhook_def Let_def split: sum.split)
  show ?thesis
    by (simp add: first second)
qed

lemma before_tool_call_posts:
  assumes "toolName \<notin> set (excludedTools env)" and "fst (getClient env sessionKey) \<noteq> None"
    and "fst (before_tool_call env net now toolName message sessionKey st) = Inr None"
  shows "fst (snd (before_tool_call env net now toolName message sessionKey st)) \<noteq> []"
proof -
  have posted: "fst (snd (try_catch (post_call_attempt env net c sid message after ([], st1))
                  (\<lambda>error. webhook_fallback net (Some c) message))) \<noteq> []"
    for c sid after st1
  proof (cases "post_call_attempt env net c sid message after ([], st1)")
    case (fields r log st')
    from post_call_attempt_log [of env net c sid message after "[]" st1] fields
    have log: "log \<noteq> []" by simp
    show ?thesis
    proof (cases r)
      case (Inl e)
      with fields show ?thesis by (simp add: webhook_fallback_log)
    next
      case (Inr u)
      with fields log show ?thesis by simp
    qed
  qed
  obtain cl a where g: "getClient env sessionKey = (cl, a)"
    by (cases "getClient env sessionKey")
  with assms(2) obtain c where c: "cl = Some c" by auto
  show ?thesis
    using assms(1,3) g c by (simp add: before_tool_call_def Let_def posted split: if_splits)
qed

lemma unresolved_posts_to_webhook:
  assumes "toolName \<notin> set (excludedTools env)"
    and "getClient env sessionKey = (Some c, accountName)"
    and "resolveSender (sessionSenders st) sessionKey accountName now = None"
  shows "fst (before_tool_call env net now toolName message sessionKey st) = Inr None
       \<and> set (fst (snd (before_tool_call env net now toolName message sessionKey st)))
           = {PostToWebhook message}"
proof -
  let ?st1 = "st\<lparr>lastSessionKey := sessionKey\<rparr>"
  have attempt: "\<exists>r st'. post_call_attempt env net c None message after ([], ?st1)
                   = (r, [PostToWebhook message], st')" for after
    by (simp add: post_call_attempt_def postToWebhook_def Let_def split: sum.split)
  have both: "fst (try_catch (post_call_attempt env net c None message after ([], ?st1))
                     (\<lambda>error. webhook_fallback net (Some c) message)) = Inr ()
            \<and> set (fst (snd (try_catch
                     (post_call_attempt env net c None message after ([], ?st1))
                     (\<lambda>error. webhook_fallback net (Some c) message))))
                = {PostToWebhook message}" for after
  proof -
    obtain r st' where a: "post_call_attempt env net c None message after ([], ?st1)
                   = (r, [PostToWebhook message], st')"
      using attempt [of after] by blast
    show ?thesis
    proof (cases r)
      case (Inl e)
      with a show ?thesis
        by (simp add: webhook_fallback_returns webhook_fallback_log)
    next
      case (Inr u)
      with a show ?thesis by simp
    qed
  qed
  show ?thesis
    using assms by (simp add: before_tool_call_def Let_def both)
qed

lemma exact_entry_resolves:
  assumes "senders S' = Some entry"
  shows "resolveSender senders (Some S') accountName now = Some (entry_senderId entry)"
  using assms by (simp add: resolveSender_def nullish_def)

section \<open>Links along a run\<close>

lemma message_received_unrecorded:
  assumes "\<not> records_under k (MessageReceived t ev)"
  shows "sessionSenders (message_received t ev st) k = sessionSenders st k"
  using assms
  by (auto simp add: message_received_def link_sender_apply Let_def split: option.split)

lemma step_keeps_link:
  assumes "\<not> records_under k e"
  shows "sessionSenders (step env e st) k = sessionSenders st k"
proof (cases e)
  case (MessageReceived t ev)
  with assms show ?thesis
    using message_received_unrecorded [of k t ev st] by simp
qed (simp_all add: before_tool_call_senders tool_result_persist_senders halt_command_senders
       unhalt_command_senders)

lemma run_keeps_link:
  assumes "\<forall>e\<in>set es. \<not> records_under k e"
  shows "sessionSenders (run env es st) k = sessionSenders st k"
  using assms by (induction es arbitrary: st) (simp_all add: step_keeps_link)

lemma step_keeps_linked:
  assumes "k \<in> dom (sessionSenders st)"
  shows "k \<in> dom (sessionSenders (step env e st))"
proof (cases e)
  case (MessageReceived t ev)
  with assms show ?thesis
    by (auto simp add: message_received_def link_sender_apply split: option.split)
qed (simp_all add: assms before_tool_call_senders tool_result_persist_senders
       halt_command_senders unhalt_command_senders)

lemma link_never_removed:
  assumes "k \<in> dom (sessionSenders st)"
  shows "k \<in> dom (sessionSenders (run env es st))"
  using assms by (induction es arbitrary: st) (simp_all add: step_keeps_linked)

lemma link_sender_nonempty:
  assumes "senders_nonempty m" and "R \<noteq> []"
  shows "senders_nonempty (link_sender R t sk acc m)"
  using assms by (simp add: senders_nonempty_def link_sender_apply)

lemma step_senders_nonempty:
  assumes "senders_nonempty (sessionSenders st)"
  shows "senders_nonempty (sessionSenders (step env e st))"
proof (cases e)
  case (MessageReceived t ev)
  with assms show ?thesis
    by (auto simp add: message_received_def link_sender_nonempty split: option.split)
qed (simp_all add: assms before_tool_call_senders tool_result_persist_senders
       halt_command_senders unhalt_command_senders)

lemma run_senders_nonempty:
  assumes "senders_nonempty (sessionSenders st)"
  shows "senders_nonempty (sessionSenders (run env es st))"
  using assms by (induction es arbitrary: st) (simp_all add: step_senders_nonempty)

lemma reachable_senders_nonempty:
  "senders_nonempty (sessionSenders (run env es initial_state))"
  by (rule run_senders_nonempty) (simp add: senders_nonempty_def initial_state_def)

lemma resolved_sender_nonempty:
  assumes "senders_nonempty m" and "resolveSender m sk a now = Some U"
  shows "U \<noteq> []"
  using assms
  by (auto simp add: resolveSender_def senders_nonempty_def Let_def
      split: option.splits if_splits)

section \<open>The registry after registration\<close>

lemma update_tokens:
  assumes "\<forall>p\<in>set m. acct_token (snd p) \<noteq> []" and "acct_token v \<noteq> []"
  shows "\<forall>p\<in>set (AList.update k v m). acct_token (snd p) \<noteq> []"
  using assms by (induction m) auto

lemma add_accounts_tokens:
  assumes "\<forall>p\<in>set m. acct_token (snd p) \<noteq> []"
  shows "\<forall>p\<in>set (add_accounts d es m). acct_token (snd p) \<noteq> []"
  using assms
proof (induction es arbitrary: m)
  case Nil
  then show ?case by simp
next
  case (Cons e es)
  obtain n acc where e: "e = (n, acc)" by (cases e)
  show ?case
  proof (cases acc)
    case None
    with e Cons show ?thesis by simp
  next
    case (Some a)
    show ?thesis
    proof (cases "ma_botToken a")
      case None
      with e Some Cons show ?thesis by simp
    next
      case tok: (Some tok)
      show ?thesis
      proof (cases "tok = []")
        case True
        with e Some tok Cons show ?thesis by simp
      next
        case False
        let ?acct = "\<lparr>acct_token = tok, acct_url = or_else (ma_baseUrl a) d\<rparr>"
        have m1: "\<forall>p\<in>set (AList.update n ?acct m). acct_token (snd p) \<noteq> []"
          using Cons.prems False by (intro update_tokens) simp_all
        have m2: "\<forall>p\<in>set (AList.update nm ?acct (AList.update n ?acct m)).
                         acct_token (snd p) \<noteq> []" for nm
          by (rule update_tokens [OF m1]) (simp add: False)
        show ?thesis
        proof (cases "ma_name a")
          case None
          with e Some tok False show ?thesis
            by (simp add: Let_def Cons.IH [OF m1])
        next
          case nm: (Some nm)
          with e Some tok False show ?thesis
            by (simp add: Let_def Cons.IH [OF m1] Cons.IH [OF m2])
        qed
      qed
    qed
  qed
qed

lemma register_tokens:
  assumes "register cfg = Some env"
  shows "\<forall>p\<in>set (botAccounts env). acct_token (snd p) \<noteq> []"
proof -
  let ?pc = "nullish (plugin_entry_config cfg) empty_config"
  let ?d = "or_else (or_else (mm_url cfg) (pc_baseUrl ?pc)) (env_MATTERMOST_URL cfg)"
  let ?a0 = "case mm_accounts cfg of None \<Rightarrow> [] | Some entries \<Rightarrow> add_accounts ?d entries []"
  let ?tok = "or_else (pc_botToken ?pc) (env_MATTERMOST_BOT_TOKEN cfg)"
  let ?accts = "case ?tok of
                     None \<Rightarrow> ?a0
                   | Some tok \<Rightarrow>
                       if tok = [] then ?a0
                       else AList.update ''default''
                              \<lparr>acct_token = tok, acct_url = ?d\<rparr> ?a0"
  have empty: "\<forall>p\<in>set ([] :: (string \<times> account) list). acct_token (snd p) \<noteq> []"
    by simp
  have a0: "\<forall>p\<in>set ?a0. acct_token (snd p) \<noteq> []"
  proof (cases "mm_accounts cfg")
    case None
    then show ?thesis by simp
  next
    case (Some entries)
    then show ?thesis
      using add_accounts_tokens [OF empty, of ?d entries] by simp
  qed
  have accts: "\<forall>p\<in>set ?accts. acct_token (snd p) \<noteq> []"
  proof (cases ?tok)
    case None
    with a0 show ?thesis by simp
  next
    case (Some tok)
    show ?thesis
    proof (cases "tok = []")
      case True
      with Some a0 show ?thesis by simp
    next
      case False
      have "\<forall>p\<in>set (AList.update ''default'' \<lparr>acct_token = tok, acct_url = ?d\<rparr> ?a0).
              acct_token (snd p) \<noteq> []"
        using a0 False by (intro update_tokens) simp_all
      with Some False show ?thesis by simp
    qed
  qed
  have "botAccounts env = ?accts"
    using assms by (simp add: register_def Let_def split: if_splits) auto
  with accts show ?thesis by simp
qed

lemma register_connected:
  assumes "register cfg = Some env"
  shows "botAccounts env \<noteq> [] \<or> truthy (webhookUrl env)"
  using assms by (auto simp add: register_def Let_def split: if_splits)

lemma selectAccount_member:
  assumes "fst (selectAccount m hint) = Some a"
  shows "\<exists>k. (k, a) \<in> set m"
  using assms
  by (auto simp add: selectAccount_def first_value_def Let_def
      split: option.splits if_splits list.splits dest!: map_of_SomeD)

lemma selectAccount_some:
  assumes "m \<noteq> []"
  shows "fst (selectAccount m hint) \<noteq> None"
  using assms
  by (auto simp add: selectAccount_def first_value_def Let_def
      split: option.splits if_splits list.splits)

lemma getClient_some:
  assumes "\<forall>p\<in>set (botAccounts env). acct_token (snd p) \<noteq> []"
    and "botAccounts env \<noteq> [] \<or> truthy (webhookUrl env)"
  shows "fst (getClient env sk) \<noteq> None"
proof (cases "selectAccount (botAccounts env) (extractAgentFromSessionKey sk)")
  case (Pair account nm)
  show ?thesis
  proof (cases account)
    case None
    with Pair have "botAccounts env = []"
      using selectAccount_some [of "botAccounts env" "extractAgentFromSessionKey sk"] by auto
    with assms(2) have "truthy (webhookUrl env)" by simp
    with Pair None show ?thesis by (simp add: getClient_def)
  next
    case (Some a)
    with Pair obtain k where "(k, a) \<in> set (botAccounts env)"
      using selectAccount_member [of "botAccounts env" "extractAgentFromSessionKey sk" a] by auto
    with assms(1) have "acct_token a \<noteq> []" by force
    with Pair Some show ?thesis by (simp add: getClient_def)
  qed
qed

section \<open>Facts of the concrete deployment\<close>

lemma register_example: "register example_config = Some example_env"
  by (simp add: register_def example_config_def example_env_def empty_config_def
      nullish_def or_else_def Let_def)

lemma example_env_fields:
  "excludedTools example_env = [''message'']" "includeResults example_env"
  "postToConversation example_env" "enableHaltCommands example_env"
  by (simp_all add: example_env_def)

lemma extract_ops: "extractAgentFromSessionKey (Some ''agent:ops:main'') = Some ''ops''"
  by (simp add: extractAgentFromSessionKey_def capture_agent_def)

lemma getClient_ops:
  "getClient example_env (Some ''agent:ops:main'') = (Some ops_client, ''ops'')"
  by (simp add: getClient_def extract_ops selectAccount_def example_env_def ops_client_def
      nullish_def or_else_def empty_config_def)

lemma linked_senders:
  "sessionSenders linked_state =
     [''conv1'' \<mapsto> \<lparr>entry_senderId = ''u1'', entry_timestamp = 1000\<rparr>,
      ''agent:conv1'' \<mapsto> \<lparr>entry_senderId = ''u1'', entry_timestamp = 1000\<rparr>,
      ''ops'' \<mapsto> \<lparr>entry_senderId = ''u1'', entry_timestamp = 1000\<rparr>,
      ''agent:ops:main'' \<mapsto> \<lparr>entry_senderId = ''u1'', entry_timestamp = 1000\<rparr>]"
  by (simp add: linked_state_def message_received_def example_message_def initial_state_def
      link_sender_def or_else_def Let_def)

lemma linked_stopped: "stoppedSessions linked_state = {}"
  by (simp add: linked_state_def stopped_after_message clear_halt_def example_message_def
      initial_state_def)

lemma halted_senders: "sessionSenders halted_state = sessionSenders linked_state"
  by (simp add: halted_state_def halt_command_def Let_def split: option.split prod.split sum.split)

lemma halted_stopped: "stoppedSessions halted_state = {''u1''}"
  by (simp add: halted_state_def stopped_after_halt linked_stopped nullish_def)

lemma halted_state_run:
  "halted_state =
     run example_env
       [MessageReceived 1000 (example_message ''hello''), HaltCommand server_up (Some ''u1'')]
       initial_state"
  by (simp add: halted_state_def linked_state_def example_env_def)

lemma run_example_thread:
  "sessionSenders
     (run example_env
        [BeforeToolCall server_up 2000 ''exec'' ''calling exec'' (Some ''agent:ops:thread7''),
         MessageReceived 3000 other_message]
        linked_state) ''agent:ops:thread7'' = None"
proof -
  have "sessionSenders
     (run example_env
        [BeforeToolCall server_up 2000 ''exec'' ''calling exec'' (Some ''agent:ops:thread7''),
         MessageReceived 3000 other_message]
        linked_state) ''agent:ops:thread7'' = sessionSenders linked_state ''agent:ops:thread7''"
    by (rule run_keeps_link) (simp add: other_message_def or_else_def link_keys_def)
  then show ?thesis
    by (simp add: linked_senders)
qed

lemma getClient_thread:
  "getClient example_env (Some ''agent:ops:thread7'') = (Some ops_client, ''ops'')"
  by (simp add: getClient_def extractAgentFromSessionKey_def capture_agent_def
      selectAccount_def example_env_def ops_client_def nullish_def or_else_def
      empty_config_def)

lemma run_example_main:
  "sessionSenders
     (run example_env
        [BeforeToolCall server_up 2000 ''exec'' ''calling exec'' (Some ''agent:ops:thread7''),
         MessageReceived 3000 other_message]
        linked_state) ''agent:ops:main''
     = Some \<lparr>entry_senderId = ''u1'', entry_timestamp = 1000\<rparr>"
proof -
  have "sessionSenders
     (run example_env
        [BeforeToolCall server_up 2000 ''exec'' ''calling exec'' (Some ''agent:ops:thread7''),
         MessageReceived 3000 other_message]
        linked_state) ''agent:ops:main'' = sessionSenders linked_state ''agent:ops:main''"
    by (rule run_keeps_link) (simp add: other_message_def or_else_def link_keys_def)
  then show ?thesis
    by (simp add: linked_senders)
qed

section \<open>Properties of sender resolution\<close>

text \<open>
  C1. A message from recipient \<open>R\<close> on account \<open>A\<close> is recorded at time \<open>t\<close>; the run goes
  on with events that record nothing under \<open>A\<close>; then a tool call of a session \<open>S'\<close> that
  shares account \<open>A\<close> is resolved at time \<open>t'\<close>.
  \<^item> When the link table holds no entry under \<open>S'\<close> itself (links are never removed,
    \<open>link_never_removed\<close>, so none was ever recorded under it), the resolution returns
    \<open>R\<close> if and only if \<open>t' - t\<close> is below 30 minutes (1800000 ms) and \<open>S'\<close> contains
    neither \<^verbatim>\<open>:subagent:\<close> nor \<^verbatim>\<open>:cron:\<close>; otherwise it returns nothing.
  \<^item> When it returns nothing, \<^verbatim>\<open>before_tool_call\<close> returns \<^verbatim>\<open>undefined\<close> and every post
    it makes goes to the webhook, the shared channel.
  \<^item> When the table holds an entry under \<open>S'\<close> itself, the resolution returns that
    entry's recipient, whatever \<open>t'\<close> is and whatever markers \<open>S'\<close> contains.
\<close>

theorem account_fallback_when_session_unlinked:
  assumes "ev_senderId ev = Some R" and "R \<noteq> []"
    and "ctx_accountId ev = Some A" and "A \<noteq> []"
    and "\<forall>e\<in>set es. \<not> records_under A e"
  shows "(sessionSenders (run env es (message_received t ev st)) S' = None
          \<longrightarrow> resolveSender (sessionSenders (run env es (message_received t ev st)))
                (Some S') A t' =
              (if t' - t < 1800000
                    \<and> \<not> (str_includes S' '':subagent:'' \<or> str_includes S' '':cron:'')
               then Some R else None))
       \<and> (sessionSenders (run env es (message_received t ev st)) S' = None
            \<and> \<not> (t' - t < 1800000
                    \<and> \<not> (str_includes S' '':subagent:'' \<or> str_includes S' '':cron:''))
            \<and> toolName \<notin> set (excludedTools env)
            \<and> getClient env (Some S') = (Some c, A)
          \<longrightarrow> fst (before_tool_call env net t' toolName message (Some S')
                     (run env es (message_received t ev st))) = Inr None
              \<and> set (fst (snd (before_tool_call env net t' toolName message (Some S')
                     (run env es (message_received t ev st))))) = {PostToWebhook message})
       \<and> (sessionSenders (run env es (message_received t ev st)) S' = Some entry
          \<longrightarrow> resolveSender (sessionSenders (run env es (message_received t ev st)))
                (Some S') A t' = Some (entry_senderId entry))"
proof -
  let ?st = "run env es (message_received t ev st)"
  have "sessionSenders ?st A = sessionSenders (message_received t ev st) A"
    using assms(5) by (rule run_keeps_link)
  also have "\<dots> = Some \<lparr>entry_senderId = R, entry_timestamp = t\<rparr>"
    using assms(1-4) by (simp add: sessionSenders_message_received link_sender_account)
  finally have acc: "sessionSenders ?st A = Some \<lparr>entry_senderId = R, entry_timestamp = t\<rparr>" .
  have unlinked: "resolveSender (sessionSenders ?st) (Some S') A t' =
              (if t' - t < 1800000
                    \<and> \<not> (str_includes S' '':subagent:'' \<or> str_includes S' '':cron:'')
               then Some R else None)"
    if "sessionSenders ?st S' = None"
    using that acc by (simp add: resolveSender_def nullish_def isSubagent_def)
  have fallback: "fst (before_tool_call env net t' toolName message (Some S') ?st) = Inr None
              \<and> set (fst (snd (before_tool_call env net t' toolName message (Some S') ?st)))
                  = {PostToWebhook message}"
    if "sessionSenders ?st S' = None"
      and "\<not> (t' - t < 1800000
                    \<and> \<not> (str_includes S' '':subagent:'' \<or> str_includes S' '':cron:''))"
      and "toolName \<notin> set (excludedTools env)"
      and "getClient env (Some S') = (Some c, A)"
  proof (rule unresolved_posts_to_webhook [OF that(3) that(4)])
    show "resolveSender (sessionSenders ?st) (Some S') A t' = None"
      using unlinked [OF that(1)] that(2) by simp
  qed
  show ?thesis
    using unlinked fallback by (auto simp add: exact_entry_resolves)
qed

text \<open>
  The theorem at work: \<^verbatim>\<open>u1\<close> writes to the \<^verbatim>\<open>ops\<close> bot in \<^verbatim>\<open>conv1\<close> at 1000 ms; a tool
  call and a message of \<^verbatim>\<open>u2\<close> to the \<^verbatim>\<open>default\<close> bot follow. The unlinked session
  \<^verbatim>\<open>agent:ops:thread7\<close> resolves to \<^verbatim>\<open>u1\<close> one minute after the message and to nobody
  thirty minutes after it, when its tool call is posted to the webhook only; the linked
  session \<^verbatim>\<open>agent:ops:main\<close> resolves to \<^verbatim>\<open>u1\<close> two hours after the message.
\<close>

theorem account_fallback_when_session_unlinked_witness:
  "resolveSender
     (sessionSenders
        (run example_env
           [BeforeToolCall server_up 2000 ''exec'' ''calling exec'' (Some ''agent:ops:thread7''),
            MessageReceived 3000 other_message]
           linked_state))
     (Some ''agent:ops:thread7'') ''ops'' 61000 = Some ''u1''
   \<and> resolveSender
     (sessionSenders
        (run example_env
           [BeforeToolCall server_up 2000 ''exec'' ''calling exec'' (Some ''agent:ops:thread7''),
            MessageReceived 3000 other_message]
           linked_state))
     (Some ''agent:ops:thread7'') ''ops'' 1801000 = None
   \<and> fst (before_tool_call example_env server_up 1801000 ''exec'' ''calling exec''
        (Some ''agent:ops:thread7'')
        (run example_env
           [BeforeToolCall server_up 2000 ''exec'' ''calling exec'' (Some ''agent:ops:thread7''),
            MessageReceived 3000 other_message]
           linked_state)) = Inr None
   \<and> set (fst (snd (before_tool_call example_env server_up 1801000 ''exec'' ''calling exec''
        (Some ''agent:ops:thread7'')
        (run example_env
           [BeforeToolCall server_up 2000 ''exec'' ''calling exec'' (Some ''agent:ops:thread7''),
            MessageReceived 3000 other_message]
           linked_state)))) = {PostToWebhook ''calling exec''}
   \<and> resolveSender
     (sessionSenders
        (run example_env
           [BeforeToolCall server_up 2000 ''exec'' ''calling exec'' (Some ''agent:ops:thread7''),
            MessageReceived 3000 other_message]
           linked_state))
     (Some ''agent:ops:main'') ''ops'' 7201000 = Some ''u1''"
proof -
  let ?es = "[BeforeToolCall server_up 2000 ''exec'' ''calling exec'' (Some ''agent:ops:thread7''),
              MessageReceived 3000 other_message]"
  let ?st = "run example_env ?es (message_received 1000 (example_message ''hello'') initial_state)"
  have sender: "ev_senderId (example_message ''hello'') = Some ''u1''"
    and account: "ctx_accountId (example_message ''hello'') = Some ''ops''"
    by (simp_all add: example_message_def)
  have recipient: "''u1'' \<noteq> []" and name: "''ops'' \<noteq> []"
    by simp_all
  have later: "\<forall>e\<in>set ?es. \<not> records_under ''ops'' e"
    by (simp add: other_message_def or_else_def link_keys_def)
  have unlinked: "sessionSenders ?st ''agent:ops:thread7'' = None"
    using run_example_thread by (simp only: linked_state_def)
  have linked: "sessionSenders ?st ''agent:ops:main''
                  = Some \<lparr>entry_senderId = ''u1'', entry_timestamp = 1000\<rparr>"
    using run_example_main by (simp only: linked_state_def)
  have tool: "''exec'' \<notin> set (excludedTools example_env)"
    by (simp add: example_env_fields)
  note inst = account_fallback_when_session_unlinked [OF sender recipient account name later]
  have fresh: "resolveSender (sessionSenders ?st) (Some ''agent:ops:thread7'') ''ops'' 61000
                 = Some ''u1''"
    using inst [of example_env 1000 initial_state "''agent:ops:thread7''" 61000] unlinked
    by simp
  have stale: "resolveSender (sessionSenders ?st) (Some ''agent:ops:thread7'') ''ops'' 1801000
                 = None"
    using inst [of example_env 1000 initial_state "''agent:ops:thread7''" 1801000] unlinked
    by simp
  have posted: "fst (before_tool_call example_env server_up 1801000 ''exec'' ''calling exec''
                   (Some ''agent:ops:thread7'') ?st) = Inr None
              \<and> set (fst (snd (before_tool_call example_env server_up 1801000 ''exec''
                   ''calling exec'' (Some ''agent:ops:thread7'') ?st)))
                  = {PostToWebhook ''calling exec''}"
    using inst [of example_env 1000 initial_state "''agent:ops:thread7''" 1801000 "''exec''"
               ops_client server_up "''calling exec''"]
      unlinked tool getClient_thread
    by simp
  have exact: "resolveSender (sessionSenders ?st) (Some ''agent:ops:main'') ''ops'' 7201000
                 = Some ''u1''"
    using inst [of example_env 1000 initial_state "''agent:ops:main''" 7201000 "''exec''"
               ops_client server_up "''calling exec''"
               "\<lparr>entry_senderId = ''u1'', entry_timestamp = 1000\<rparr>"] linked
    by simp
  from fresh stale posted exact show ?thesis
    by (simp only: linked_state_def simp_thms)
qed


text \<open>
  Without the condition on \<open>S'\<close> the statement fails. The record also writes the key
  \<^verbatim>\<open>agent:ops:main\<close> ("This allows tool calls using agent:AGENT_NAME:main to find this
  user"), so a tool call of that session, which is not \<^verbatim>\<open>conv1\<close> and runs on account
  \<^verbatim>\<open>ops\<close>, is resolved by the exact match: two hours after the message the resolution
  still returns \<^verbatim>\<open>u1\<close>, and the handler posts to the direct channel of \<^verbatim>\<open>u1\<close>.
\<close>

theorem account_fallback_counterexample:
  "resolveSender (sessionSenders linked_state) (Some ''agent:ops:main'') ''ops'' 7201000
     = Some ''u1''
   \<and> \<not> (7201000 - 1000 < (1800000::int))
   \<and> ''agent:ops:main'' \<noteq> ''conv1''
   \<and> getClient example_env (Some ''agent:ops:main'') = (Some ops_client, ''ops'')
   \<and> fst (snd (before_tool_call example_env server_up 7201000 ''exec'' ''calling exec''
        (Some ''agent:ops:main'') linked_state)) = [PostToDm ''u1'' ''calling exec'']"
  by (simp add: linked_senders resolveSender_def nullish_def getClient_ops
      before_tool_call_def Let_def linked_stopped post_call_attempt_def
      postToDm_def hasRestApi_def example_env_fields server_up_def)
     (simp add: ops_client_def)

text \<open>
  C2. A message from recipient \<open>R\<close> in session \<open>S\<close> at time \<open>t\<close> links \<open>S\<close> to \<open>R\<close>. After any
  run of further events none of which records under \<open>S\<close>, resolving the very session \<open>S\<close>
  returns \<open>R\<close>, whatever the account name, however much later the resolution happens,
  and whatever markers \<open>S\<close> contains.
\<close>

theorem exact_session_wins:
  assumes "ev_senderId ev = Some R" and "R \<noteq> []"
    and "or_else (ev_sessionKey ev) (ctx_conversationId ev) = Some S" and "S \<noteq> []"
    and "\<forall>e\<in>set es. \<not> records_under S e"
  shows "resolveSender (sessionSenders (run env es (message_received t ev st)))
           (Some S) accountName t' = Some R"
proof -
  have "sessionSenders (run env es (message_received t ev st)) S
          = sessionSenders (message_received t ev st) S"
    using assms(5) by (rule run_keeps_link)
  also have "\<dots> = Some \<lparr>entry_senderId = R, entry_timestamp = t\<rparr>"
    using assms(1-4) by (simp add: sessionSenders_message_received link_sender_session)
  finally show ?thesis
    by (simp add: resolveSender_def nullish_def)
qed

text \<open>
  A cron session linked at 1000 ms resolves to its sender 25 hours later, after a tool
  call, a message of another user to another bot and a halt command.
\<close>

theorem exact_session_wins_witness:
  "resolveSender
     (sessionSenders
        (run example_env
           [BeforeToolCall server_down 2000 ''exec'' ''calling exec'' (Some ''agent:ops:cron:nightly''),
            MessageReceived 3000 other_message,
            HaltCommand server_up (Some ''u2'')]
           (message_received 1000
              \<lparr>ev_content = ''run the nightly job'', ev_senderId = Some ''u1'',
               ev_sessionKey = Some ''agent:ops:cron:nightly'', ctx_accountId = Some ''ops'',
               ctx_conversationId = None\<rparr>
              initial_state)))
     (Some ''agent:ops:cron:nightly'') ''ops'' 90000000 = Some ''u1''"
  using exact_session_wins
    [of "\<lparr>ev_content = ''run the nightly job'', ev_senderId = Some ''u1'',
            ev_sessionKey = Some ''agent:ops:cron:nightly'', ctx_accountId = Some ''ops'',
            ctx_conversationId = None\<rparr>"
        "''u1''" "''agent:ops:cron:nightly''"
        "[BeforeToolCall server_down 2000 ''exec'' ''calling exec'' (Some ''agent:ops:cron:nightly''),
            MessageReceived 3000 other_message,
            HaltCommand server_up (Some ''u2'')]"
        example_env 1000 initial_state "''ops''" 90000000]
  by (simp add: or_else_def other_message_def link_keys_def)

text \<open>
  C7. A message that carries a recipient \<open>R\<close>, a session key \<open>S\<close> and an account \<open>A\<close> stores
  the same entry (recipient \<open>R\<close>, time \<open>t\<close>) under the session key as given, under the
  session key with the prefix \<^verbatim>\<open>agent:\<close> ensured, and under the account key; a lookup by
  any of them finds it. The handler stores it under \<^verbatim>\<open>agent:A:main\<close> as well.
\<close>

theorem record_writes_every_key:
  assumes "ev_senderId ev = Some R" and "R \<noteq> []"
    and "or_else (ev_sessionKey ev) (ctx_conversationId ev) = Some S" and "S \<noteq> []"
    and "ctx_accountId ev = Some A" and "A \<noteq> []"
  shows "sessionSenders (message_received t ev st) S
           = Some \<lparr>entry_senderId = R, entry_timestamp = t\<rparr>
       \<and> sessionSenders (message_received t ev st)
             (if startsWith S ''agent:'' then S else ''agent:'' @ S)
           = Some \<lparr>entry_senderId = R, entry_timestamp = t\<rparr>
       \<and> sessionSenders (message_received t ev st) A
           = Some \<lparr>entry_senderId = R, entry_timestamp = t\<rparr>
       \<and> sessionSenders (message_received t ev st) (''agent:'' @ A @ '':main'')
           = Some \<lparr>entry_senderId = R, entry_timestamp = t\<rparr>"
  using assms
  by (simp only: sessionSenders_message_received link_sender_session link_sender_normalized
      link_sender_account link_sender_agent_main simp_thms)

text \<open>The four keys of the message \<^verbatim>\<open>u1\<close> sent in \<^verbatim>\<open>conv1\<close> to the \<^verbatim>\<open>ops\<close> bot.\<close>

theorem record_writes_every_key_witness:
  "sessionSenders linked_state ''conv1''
     = Some \<lparr>entry_senderId = ''u1'', entry_timestamp = 1000\<rparr>
   \<and> sessionSenders linked_state ''agent:conv1''
     = Some \<lparr>entry_senderId = ''u1'', entry_timestamp = 1000\<rparr>
   \<and> sessionSenders linked_state ''ops''
     = Some \<lparr>entry_senderId = ''u1'', entry_timestamp = 1000\<rparr>
   \<and> sessionSenders linked_state ''agent:ops:main''
     = Some \<lparr>entry_senderId = ''u1'', entry_timestamp = 1000\<rparr>"
  using record_writes_every_key
    [of "example_message ''hello''" "''u1''" "''conv1''" "''ops''" 1000 initial_state]
  by (simp add: example_message_def or_else_def linked_state_def)

text \<open>
  C9. Resolution only reads the link table: \<^verbatim>\<open>before_tool_call\<close> and
  \<^verbatim>\<open>tool_result_persist\<close> leave \<^verbatim>\<open>sessionSenders\<close> as they found it, whatever they post and
  whatever the server answers, so resolving again with the same session key, account
  name and time gives the same result.
\<close>

theorem resolve_is_read_only:
  "sessionSenders (snd (snd (before_tool_call env net now toolName message sessionKey st)))
     = sessionSenders st
   \<and> sessionSenders (snd (snd (tool_result_persist env net now toolName message st)))
     = sessionSenders st
   \<and> resolveSender
       (sessionSenders (snd (snd (before_tool_call env net now toolName message sessionKey st))))
       sessionKey accountName now
     = resolveSender (sessionSenders st) sessionKey accountName now"
  by (simp add: before_tool_call_senders tool_result_persist_senders)


text \<open>After a posted tool call the session still resolves to \<^verbatim>\<open>u1\<close>.\<close>

theorem resolve_is_read_only_witness:
  "sessionSenders (snd (snd (before_tool_call example_env server_up 2000 ''exec''
       ''calling exec'' (Some ''agent:ops:main'') linked_state)))
     = sessionSenders linked_state
   \<and> sessionSenders (snd (snd (tool_result_persist example_env server_up 2000 ''exec''
       ''calling exec'' linked_state)))
     = sessionSenders linked_state
   \<and> resolveSender
       (sessionSenders (snd (snd (before_tool_call example_env server_up 2000 ''exec''
          ''calling exec'' (Some ''agent:ops:main'') linked_state))))
       (Some ''agent:ops:main'') ''ops'' 2000
     = Some ''u1''"
  using resolve_is_read_only
    [of example_env server_up 2000 "''exec''" "''calling exec''" "Some ''agent:ops:main''"
        linked_state "''ops''"]
  by (simp add: linked_senders resolveSender_def nullish_def)

section \<open>Properties of the halt gate\<close>

text \<open>
  The gate for a tool that is not excluded: in every state the plugin can reach, with
  halt commands enabled, a tool call that reaches sender resolution (a client exists)
  and is attributed to a recipient \<open>U\<close> of the halted set is answered with the block
  directive and its reason; nothing is posted.
\<close>

lemma halted_recipient_blocks_tool_call:
  assumes "st = run env es initial_state"
    and "enableHaltCommands env" and "toolName \<notin> set (excludedTools env)"
    and "getClient env sessionKey = (Some c, accountName)"
    and "resolveSender (sessionSenders st) sessionKey accountName now = Some U"
    and "U \<in> stoppedSessions st"
  shows "before_tool_call env net now toolName message sessionKey st =
           (Inr (Some \<lparr>block = True,
                       blockReason = ''Agent interaction halted via /halt command.''\<rparr>),
            [], st\<lparr>lastSessionKey := sessionKey\<rparr>)"
proof -
  have "U \<noteq> []"
    using assms(1,5) reachable_senders_nonempty [of env es]
    by (auto dest: resolved_sender_nonempty)
  with assms(2-6) show ?thesis
    by (simp add: before_tool_call_def nullish_def blockReasonText_def)
qed

text \<open>\<^verbatim>\<open>u1\<close> halted the agent; the next tool call of the \<^verbatim>\<open>ops\<close> main session is blocked.\<close>

lemma halted_recipient_blocks_tool_call_example:
  "before_tool_call example_env server_up 2000 ''exec'' ''calling exec''
     (Some ''agent:ops:main'') halted_state
   = (Inr (Some \<lparr>block = True,
                 blockReason = ''Agent interaction halted via /halt command.''\<rparr>),
      [], halted_state\<lparr>lastSessionKey := Some ''agent:ops:main''\<rparr>)"
  using halted_recipient_blocks_tool_call
    [OF halted_state_run, where toolName = "''exec''" and sessionKey = "Some ''agent:ops:main''"
        and c = ops_client and accountName = "''ops''" and now = 2000 and U = "''u1''"
        and net = server_up and message = "''calling exec''"]
  by (simp add: getClient_ops halted_senders linked_senders halted_stopped resolveSender_def
      nullish_def example_env_fields)


text \<open>
  C3. With halt commands enabled, a tool call attributed to a halted recipient is to be
  answered with the block directive. The handler does so only for a tool outside
  \<^verbatim>\<open>excludedTools\<close>: for an excluded tool it returns \<^verbatim>\<open>undefined\<close> before it resolves the
  sender or reads the halted set, whatever the state, so the call is not blocked.
\<close>

theorem excluded_tool_bypasses_halt_gate:
  assumes "toolName \<in> set (excludedTools env)"
  shows "before_tool_call env net now toolName message sessionKey st
           = (Inr None, [], st\<lparr>lastSessionKey := sessionKey\<rparr>)"
  using assms by (simp add: before_tool_call_def)

text \<open>
  In the registered deployment \<^verbatim>\<open>u1\<close> has halted the agent and the session
  \<^verbatim>\<open>agent:ops:main\<close> resolves to \<^verbatim>\<open>u1\<close>; its call of the tool \<^verbatim>\<open>message\<close>, excluded by
  default, is not blocked.
\<close>

theorem excluded_tool_bypasses_halt_gate_witness:
  "register example_config = Some example_env
   \<and> enableHaltCommands example_env
   \<and> getClient example_env (Some ''agent:ops:main'') = (Some ops_client, ''ops'')
   \<and> resolveSender (sessionSenders halted_state) (Some ''agent:ops:main'') ''ops'' 2000
       = Some ''u1''
   \<and> ''u1'' \<in> stoppedSessions halted_state
   \<and> before_tool_call example_env server_up 2000 ''message'' ''calling message''
        (Some ''agent:ops:main'') halted_state
       = (Inr None, [], halted_state\<lparr>lastSessionKey := Some ''agent:ops:main''\<rparr>)"
  using excluded_tool_bypasses_halt_gate
    [of "''message''" example_env server_up 2000 "''calling message''"
        "Some ''agent:ops:main''" halted_state]
  by (simp add: register_example example_env_fields getClient_ops halted_senders
      linked_senders halted_stopped resolveSender_def nullish_def)

text \<open>
  C4. After \<^verbatim>\<open>/halt\<close> from recipient \<open>U\<close> the recipient is halted, whether or not the
  confirmation could be posted. A following message from \<open>U\<close> whose content starts with
  neither \<^verbatim>\<open>/halt\<close> nor \<^verbatim>\<open>/unhalt\<close> clears the state; one whose content is such a command
  leaves \<open>U\<close> halted.
\<close>

theorem halt_gate_state_machine:
  assumes "U \<noteq> []" and "ev_senderId ev = Some U"
  shows "U \<in> stoppedSessions (snd (snd (halt_command env net (Some U) st)))
       \<and> (\<not> startsWith (ev_content ev) ''/halt'' \<and> \<not> startsWith (ev_content ev) ''/unhalt''
            \<longrightarrow> U \<notin> stoppedSessions
                      (message_received now ev (snd (snd (halt_command env net (Some U) st)))))
       \<and> (startsWith (ev_content ev) ''/halt'' \<or> startsWith (ev_content ev) ''/unhalt''
            \<longrightarrow> U \<in> stoppedSessions
                      (message_received now ev (snd (snd (halt_command env net (Some U) st)))))"
  using assms
  by (auto simp add: stopped_after_halt stopped_after_message clear_halt_def nullish_def)

text \<open>The messages \<^verbatim>\<open>hello\<close>, \<^verbatim>\<open>/halt\<close> and \<^verbatim>\<open>/unhalt\<close> after \<^verbatim>\<open>u1\<close> halted the agent.\<close>

theorem halt_gate_state_machine_witness:
  "''u1'' \<in> stoppedSessions halted_state
   \<and> ''u1'' \<notin> stoppedSessions (message_received 3000 (example_message ''hello'') halted_state)
   \<and> ''u1'' \<in> stoppedSessions (message_received 3000 (example_message ''/halt'') halted_state)
   \<and> ''u1'' \<in> stoppedSessions (message_received 3000 (example_message ''/unhalt'') halted_state)"
  using halt_gate_state_machine
    [of "''u1''" "example_message ''hello''" example_env server_up linked_state 3000]
    halt_gate_state_machine
    [of "''u1''" "example_message ''/halt''" example_env server_up linked_state 3000]
    halt_gate_state_machine
    [of "''u1''" "example_message ''/unhalt''" example_env server_up linked_state 3000]
  by (simp add: example_message_def halted_state_def)

text \<open>
  C8. \<^verbatim>\<open>/unhalt\<close> from a recipient \<open>U\<close> who is not halted replies "Agent is not currently
  halted.", throws nothing, posts nothing and leaves the whole state as it was.
\<close>

theorem unhalt_when_not_halted:
  assumes "U \<notin> stoppedSessions st"
  shows "unhalt_command (Some U) st = (Inr ''Agent is not currently halted.'', [], st)"
  using assms by (simp add: unhalt_command_def nullish_def notHaltedText_def)

text \<open>\<^verbatim>\<open>u1\<close> has only said hello.\<close>

theorem unhalt_when_not_halted_witness:
  "unhalt_command (Some ''u1'') linked_state
     = (Inr ''Agent is not currently halted.'', [], linked_state)"
  using unhalt_when_not_halted [of "''u1''" linked_state]
  by (simp add: linked_stopped)

section \<open>Properties of posting\<close>

text \<open>
  C5. No exception leaves \<^verbatim>\<open>before_tool_call\<close>, \<^verbatim>\<open>postResult\<close> or \<^verbatim>\<open>tool_result_persist\<close>,
  whatever the server answers. When the post goes to the direct channel of a resolved
  recipient \<open>U\<close> and throws, the handler makes exactly one further call, a webhook post
  of the same message, and returns \<^verbatim>\<open>undefined\<close> whether or not that one throws too.
\<close>

theorem posting_failures_contained:
  "\<not> isl (fst (before_tool_call env net now toolName message sessionKey st))
   \<and> \<not> isl (fst (postResult env net now message st))
   \<and> \<not> isl (fst (tool_result_persist env net now toolName message st))
   \<and> (toolName \<notin> set (excludedTools env)
        \<and> getClient env sessionKey = (Some c, accountName)
        \<and> resolveSender (sessionSenders st) sessionKey accountName now = Some U
        \<and> U \<noteq> [] \<and> \<not> (enableHaltCommands env \<and> U \<in> stoppedSessions st)
        \<and> postToConversation env \<and> hasRestApi c \<and> isl (net [] (PostToDm U message))
      \<longrightarrow> before_tool_call env net now toolName message sessionKey st
            = (Inr None, [PostToDm U message, PostToWebhook message],
               st\<lparr>lastSessionKey := sessionKey\<rparr>))
   \<and> (includeResults env \<and> toolName \<notin> set (excludedTools env)
        \<and> getClient env (lastSessionKey st) = (Some c, accountName)
        \<and> resolveSender (sessionSenders st) (lastSessionKey st) accountName now = Some U
        \<and> U \<noteq> [] \<and> postToConversation env \<and> hasRestApi c
        \<and> isl (net [] (PostToDm U message))
      \<longrightarrow> tool_result_persist env net now toolName message st
            = (Inr (), [PostToDm U message, PostToWebhook message], st))"
proof (intro conjI impI)
  show "\<not> isl (fst (before_tool_call env net now toolName message sessionKey st))"
    by (rule before_tool_call_returns)
  show "\<not> isl (fst (postResult env net now message st))"
    by (rule postResult_returns)
  show "\<not> isl (fst (tool_result_persist env net now toolName message st))"
    by (rule tool_result_persist_returns)
next
  assume h: "toolName \<notin> set (excludedTools env)
        \<and> getClient env sessionKey = (Some c, accountName)
        \<and> resolveSender (sessionSenders st) sessionKey accountName now = Some U
        \<and> U \<noteq> [] \<and> \<not> (enableHaltCommands env \<and> U \<in> stoppedSessions st)
        \<and> postToConversation env \<and> hasRestApi c \<and> isl (net [] (PostToDm U message))"
  then show "before_tool_call env net now toolName message sessionKey st
            = (Inr None, [PostToDm U message, PostToWebhook message],
               st\<lparr>lastSessionKey := sessionKey\<rparr>)"
    by (auto simp add: before_tool_call_def Let_def nullish_def dm_failure_then_one_webhook)
next
  assume h: "includeResults env \<and> toolName \<notin> set (excludedTools env)
        \<and> getClient env (lastSessionKey st) = (Some c, accountName)
        \<and> resolveSender (sessionSenders st) (lastSessionKey st) accountName now = Some U
        \<and> U \<noteq> [] \<and> postToConversation env \<and> hasRestApi c
        \<and> isl (net [] (PostToDm U message))"
  then show "tool_result_persist env net now toolName message st
            = (Inr (), [PostToDm U message, PostToWebhook message], st)"
    by (simp add: tool_result_persist_def postResult_def dm_failure_then_one_webhook)
qed


text \<open>With the server down, both hooks try the DM, then the webhook once, and return.\<close>

theorem posting_failures_contained_witness:
  "before_tool_call example_env server_down 2000 ''exec'' ''calling exec''
     (Some ''agent:ops:main'') linked_state
     = (Inr None, [PostToDm ''u1'' ''calling exec'', PostToWebhook ''calling exec''],
        linked_state\<lparr>lastSessionKey := Some ''agent:ops:main''\<rparr>)
   \<and> tool_result_persist example_env server_down 2000 ''exec'' ''calling exec''
       (linked_state\<lparr>lastSessionKey := Some ''agent:ops:main''\<rparr>)
     = (Inr (), [PostToDm ''u1'' ''calling exec'', PostToWebhook ''calling exec''],
        linked_state\<lparr>lastSessionKey := Some ''agent:ops:main''\<rparr>)"
  using posting_failures_contained
    [of example_env server_down 2000 "''exec''" "''calling exec''" "Some ''agent:ops:main''"
        linked_state ops_client "''ops''" "''u1''"]
    posting_failures_contained
    [of example_env server_down 2000 "''exec''" "''calling exec''" "Some ''agent:ops:main''"
        "linked_state\<lparr>lastSessionKey := Some ''agent:ops:main''\<rparr>" ops_client "''ops''" "''u1''"]
  by (simp add: getClient_ops linked_senders linked_stopped resolveSender_def nullish_def
      example_env_fields hasRestApi_def ops_client_def server_down_def)

section \<open>Properties of the account registry\<close>

text \<open>
  C6. The account \<^verbatim>\<open>getClient\<close> selects for a hint (the agent name taken from the session
  key, never empty by \<open>extractAgent_nonempty\<close>): the account registered under the hint
  when there is one; otherwise the account under \<^verbatim>\<open>default\<close>; without one, the first
  entry of the registry (the first inserted: a later \<^verbatim>\<open>set\<close> keeps the first key,
  \<open>first_value_update\<close>); and none when the registry is empty. The registry built from
  \<^verbatim>\<open>{default: tokenA, ops: tokenB}\<close> answers \<^verbatim>\<open>ops\<close> with the \<^verbatim>\<open>ops\<close> account and
  \<^verbatim>\<open>unknown-agent\<close> with the \<^verbatim>\<open>default\<close> account, also when the hint comes from the
  session keys \<^verbatim>\<open>agent:ops:main\<close> and \<^verbatim>\<open>agent:unknown-agent:main\<close>.
\<close>

theorem account_resolution_precedence:
  "(h \<noteq> [] \<and> map_of accts h = Some a \<longrightarrow> fst (selectAccount accts (Some h)) = Some a)
   \<and> ((case hint of None \<Rightarrow> True | Some x \<Rightarrow> map_of accts x = None)
        \<and> map_of accts ''default'' = Some d
      \<longrightarrow> fst (selectAccount accts hint) = Some d)
   \<and> ((case hint of None \<Rightarrow> True | Some x \<Rightarrow> map_of accts x = None)
        \<and> map_of accts ''default'' = None \<and> accts = (k, v) # rest
      \<longrightarrow> fst (selectAccount accts hint) = Some v)
   \<and> (accts = [] \<longrightarrow> fst (selectAccount accts hint) = None)
   \<and> register example_config = Some example_env
   \<and> fst (selectAccount (botAccounts example_env) (Some ''ops''))
       = Some \<lparr>acct_token = ''tokenB'', acct_url = Some ''https://chat.example.org''\<rparr>
   \<and> fst (selectAccount (botAccounts example_env) (Some ''unknown-agent''))
       = Some \<lparr>acct_token = ''tokenA'', acct_url = Some ''https://chat.example.org''\<rparr>
   \<and> getClient example_env (Some ''agent:ops:main'') = (Some ops_client, ''ops'')
   \<and> getClient example_env (Some ''agent:unknown-agent:main'')
       = (Some (ops_client\<lparr>cl_botToken := Some ''tokenA''\<rparr>), ''default'')"
proof (intro conjI impI)
  assume "h \<noteq> [] \<and> map_of accts h = Some a"
  then show "fst (selectAccount accts (Some h)) = Some a"
    by (simp add: selectAccount_def nullish_def)
next
  assume "(case hint of None \<Rightarrow> True | Some x \<Rightarrow> map_of accts x = None)
        \<and> map_of accts ''default'' = Some d"
  then show "fst (selectAccount accts hint) = Some d"
    by (cases hint) (simp_all add: selectAccount_def nullish_def)
next
  assume h: "(case hint of None \<Rightarrow> True | Some x \<Rightarrow> map_of accts x = None)
        \<and> map_of accts ''default'' = None \<and> accts = (k, v) # rest"
  then have d: "map_of accts ''default'' = None" and "accts = (k, v) # rest"
    by blast+
  then have f: "first_value accts = Some v"
    by (simp add: first_value_def)
  from h have "case hint of None \<Rightarrow> True | Some x \<Rightarrow> map_of accts x = None" by simp
  then show "fst (selectAccount accts hint) = Some v"
    by (cases hint) (simp_all add: selectAccount_def nullish_def d f)
next
  assume "accts = []"
  then show "fst (selectAccount accts hint) = None"
    by (simp add: selectAccount_def first_value_def)
next
  show "register example_config = Some example_env"
    by (rule register_example)
  show "fst (selectAccount (botAccounts example_env) (Some ''ops''))
       = Some \<lparr>acct_token = ''tokenB'', acct_url = Some ''https://chat.example.org''\<rparr>"
    by (simp add: example_env_def selectAccount_def nullish_def)
  show "fst (selectAccount (botAccounts example_env) (Some ''unknown-agent''))
       = Some \<lparr>acct_token = ''tokenA'', acct_url = Some ''https://chat.example.org''\<rparr>"
    by (simp add: example_env_def selectAccount_def nullish_def)
  show "getClient example_env (Some ''agent:ops:main'') = (Some ops_client, ''ops'')"
    by (rule getClient_ops)
  show "getClient example_env (Some ''agent:unknown-agent:main'')
       = (Some (ops_client\<lparr>cl_botToken := Some ''tokenA''\<rparr>), ''default'')"
    by (simp add: getClient_def extractAgentFromSessionKey_def capture_agent_def
        selectAccount_def example_env_def ops_client_def nullish_def or_else_def
        empty_config_def)
qed

text \<open>One registry with a \<^verbatim>\<open>default\<close> account, one without, and the empty one.\<close>

theorem account_resolution_precedence_witness:
  "fst (selectAccount (botAccounts example_env) (Some ''ops''))
     = Some \<lparr>acct_token = ''tokenB'', acct_url = Some ''https://chat.example.org''\<rparr>
   \<and> fst (selectAccount (botAccounts example_env) None)
     = Some \<lparr>acct_token = ''tokenA'', acct_url = Some ''https://chat.example.org''\<rparr>
   \<and> fst (selectAccount [(''ops'', \<lparr>acct_token = ''tokenB'', acct_url = None\<rparr>),
                          (''qa'', \<lparr>acct_token = ''tokenC'', acct_url = None\<rparr>)]
            (Some ''unknown-agent''))
     = Some \<lparr>acct_token = ''tokenB'', acct_url = None\<rparr>
   \<and> fst (selectAccount [] (Some ''ops'')) = None"
  using account_resolution_precedence
    [of "''ops''" "botAccounts example_env"
        "\<lparr>acct_token = ''tokenB'', acct_url = Some ''https://chat.example.org''\<rparr>"
        None "\<lparr>acct_token = ''tokenA'', acct_url = Some ''https://chat.example.org''\<rparr>"
        "''k''" "\<lparr>acct_token = ''tokenB'', acct_url = None\<rparr>" "[]"]
    account_resolution_precedence
    [of "''ops''" "[(''ops'', \<lparr>acct_token = ''tokenB'', acct_url = None\<rparr>),
                          (''qa'', \<lparr>acct_token = ''tokenC'', acct_url = None\<rparr>)]"
        "\<lparr>acct_token = ''tokenB'', acct_url = None\<rparr>"
        "Some ''unknown-agent''" "\<lparr>acct_token = ''tokenA'', acct_url = None\<rparr>"
        "''ops''" "\<lparr>acct_token = ''tokenB'', acct_url = None\<rparr>"
        "[(''qa'', \<lparr>acct_token = ''tokenC'', acct_url = None\<rparr>)]"]
    account_resolution_precedence
    [of "''ops''" "[]"
        "\<lparr>acct_token = ''tokenB'', acct_url = None\<rparr>"
        "Some ''ops''" "\<lparr>acct_token = ''tokenA'', acct_url = None\<rparr>"
        "''ops''" "\<lparr>acct_token = ''tokenB'', acct_url = None\<rparr>" "[]"]
  by (simp add: example_env_def)

text \<open>
  C10. After a registration that did not abort, \<^verbatim>\<open>getClient\<close> returns a client for every
  session key: every registered account has a token, and an empty registry means a
  webhook is configured. So a tool call that is not excluded and not blocked makes at
  least one client call.
\<close>

theorem registered_client_never_null:
  assumes "register cfg = Some env"
  shows "fst (getClient env sessionKey) \<noteq> None
       \<and> (toolName \<notin> set (excludedTools env)
            \<and> fst (before_tool_call env net now toolName message sessionKey st) = Inr None
          \<longrightarrow> fst (snd (before_tool_call env net now toolName message sessionKey st)) \<noteq> [])"
proof -
  have cl: "fst (getClient env sessionKey) \<noteq> None"
    using assms by (intro getClient_some register_tokens register_connected)
  then show ?thesis
    by (auto dest: before_tool_call_posts)
qed


text \<open>The registered scenario: a client for the \<^verbatim>\<open>ops\<close> session, and one DM posted.\<close>

theorem registered_client_never_null_witness:
  "fst (getClient example_env (Some ''agent:ops:main'')) = Some ops_client
   \<and> fst (snd (before_tool_call example_env server_up 2000 ''exec'' ''calling exec''
        (Some ''agent:ops:main'') linked_state)) = [PostToDm ''u1'' ''calling exec'']"
  using registered_client_never_null
    [of example_config example_env "Some ''agent:ops:main''" "''exec''" server_up 2000
        "''calling exec''" linked_state]
  by (simp add: register_example getClient_ops before_tool_call_def Let_def linked_senders
      linked_stopped resolveSender_def nullish_def post_call_attempt_def postToDm_def
      hasRestApi_def server_up_def example_env_fields)
     (simp add: ops_client_def)

end
